theory Spec2Isabelle
  imports Complex_Main
begin

section \<open>Resume analyser: the ensemble decision engine of \<^verbatim>\<open>ensemble_model.py\<close>\<close>

text \<open>
  The development embeds the class \<^verbatim>\<open>ResumeAnalyzer\<close>: feature extraction, the
  rule-based scorer, the fusion step of \<^verbatim>\<open>predict\<close> and the recommendations.

  Conventions of the embedding.
  \<^item> A CGPA is a Python \<^verbatim>\<open>float\<close>: a finite value, held as the rational number it
    denotes, or an infinity (\<open>pyfloat\<close>). In \<^verbatim>\<open>_extract_cgpa\<close> the conversion \<^verbatim>\<open>float\<close> and the
    division round to the nearest double, ties to even, and overflow to infinity.
  \<^item> The scores of the rule scorer and of the fusion step are rational numbers. The point
    totals are small integers and the thresholds are dyadic, so both are exact in binary
    floating point; the quotients of the two normalizations are idealised (no rounding).
  \<^item> The text searched by \<^verbatim>\<open>_extract_cgpa\<close> is a list of code points, any Python \<^verbatim>\<open>str\<close>.
    The table of the decimal digits of Unicode, which grows from one version of Python to
    the next, is a parameter of the search.
  \<^item> The text given to \<^verbatim>\<open>extract_features\<close> is a \<^typ>\<open>string\<close>, read as a sequence of
    code points below 256 (Latin-1): \<^verbatim>\<open>str.lower\<close> is modelled on these only.
  \<^item> A Python \<^verbatim>\<open>dict\<close> with string keys is an association list in insertion order,
    since \<^verbatim>\<open>max\<close> over a dict depends on that order.
  \<^item> An exception is the left summand of a sum type.
\<close>

subsection \<open>Data model\<close>

datatype error = ValueError

type_synonym scores = "(string \<times> rat) list"

text \<open>
  A Python \<^verbatim>\<open>float\<close> other than NaN (no operation of the program yields one), and its
  comparisons with a finite number:
  \<^verbatim>\<open>x >= t\<close>, \<^verbatim>\<open>x < t\<close> and \<^verbatim>\<open>x <= t\<close>.
\<close>

datatype pyfloat = Finite rat | PosInf | NegInf

fun float_ge :: "pyfloat \<Rightarrow> rat \<Rightarrow> bool" where
  "float_ge (Finite x) t = (x \<ge> t)"
| "float_ge PosInf t = True"
| "float_ge NegInf t = False"

fun float_lt :: "pyfloat \<Rightarrow> rat \<Rightarrow> bool" where
  "float_lt (Finite x) t = (x < t)"
| "float_lt PosInf t = False"
| "float_lt NegInf t = True"

fun float_le :: "pyfloat \<Rightarrow> rat \<Rightarrow> bool" where
  "float_le (Finite x) t = (x \<le> t)"
| "float_le PosInf t = False"
| "float_le NegInf t = True"

text \<open>The dict returned by \<^verbatim>\<open>extract_features\<close>.\<close>

record features =
  cgpa :: "pyfloat option"
  skills :: "string list"
  has_internship :: bool
  has_projects :: bool
  has_research :: bool
  has_certifications :: bool

text \<open>\<^verbatim>\<open>d.get(k, 0)\<close> on a dict.\<close>

definition dict_get :: "scores \<Rightarrow> string \<Rightarrow> rat" where
  "dict_get d k = (case map_of d k of None \<Rightarrow> 0 | Some v \<Rightarrow> v)"

text \<open>\<^verbatim>\<open>scores[k] += p\<close> on a dict that holds the key \<^verbatim>\<open>k\<close>.\<close>

definition add_to :: "string \<Rightarrow> rat \<Rightarrow> scores \<Rightarrow> scores" where
  "add_to k p d = map (\<lambda>(k', v). if k' = k then (k', v + p) else (k', v)) d"

text \<open>\<^verbatim>\<open>max(xs)\<close> of a sequence of numbers: raises \<^verbatim>\<open>ValueError\<close> on the empty one.\<close>

fun py_max :: "rat list \<Rightarrow> error + rat" where
  "py_max [] = Inl ValueError"
| "py_max (x # xs) = Inr (fold (\<lambda>y m. if m < y then y else m) xs x)"

text \<open>
  \<^verbatim>\<open>max(d, key=d.get)\<close>: the first key, in iteration order, whose value is maximal;
  \<^verbatim>\<open>ValueError\<close> on the empty dict.
\<close>

fun argmax_from :: "string \<times> rat \<Rightarrow> scores \<Rightarrow> string \<times> rat" where
  "argmax_from best [] = best"
| "argmax_from best ((k, v) # d) = argmax_from (if snd best < v then (k, v) else best) d"

fun py_argmax :: "scores \<Rightarrow> error + string" where
  "py_argmax [] = Inl ValueError"
| "py_argmax (kv # d) = Inr (fst (argmax_from kv d))"

subsection \<open>Feature extraction\<close>

text \<open>\<^verbatim>\<open>str.lower\<close> on one code point below 256.\<close>

definition py_lower :: "char \<Rightarrow> char" where
  "py_lower c =
     (let n = (of_char c :: nat)
      in if (65 \<le> n \<and> n \<le> 90) \<or> (192 \<le> n \<and> n \<le> 222 \<and> n \<noteq> 215)
         then char_of (n + 32) else c)"

definition lower :: "string \<Rightarrow> string" where
  "lower s = map py_lower s"

text \<open>
  The regular-expression class \<^verbatim>\<open>\s\<close> on a \<^verbatim>\<open>str\<close>: the code points that
  \<^verbatim>\<open>str.isspace\<close> accepts; and the class \<^verbatim>\<open>[:\s]\<close>.
\<close>

definition is_space :: "int \<Rightarrow> bool" where
  "is_space cp =
     ((9 \<le> cp \<and> cp \<le> 13) \<or> (28 \<le> cp \<and> cp \<le> 32) \<or> cp = 133 \<or> cp = 160
      \<or> cp = 5760 \<or> (8192 \<le> cp \<and> cp \<le> 8202) \<or> cp = 8232 \<or> cp = 8233
      \<or> cp = 8239 \<or> cp = 8287 \<or> cp = 12288)"

definition is_sep :: "int \<Rightarrow> bool" where
  "is_sep cp = (cp = 58 \<or> is_space cp)"

text \<open>
  The class \<^verbatim>\<open>\d\<close> on a \<^verbatim>\<open>str\<close>: the decimal digits of Unicode. They come in runs of
  ten consecutive code points, from a digit zero to a digit nine; \<open>zeros\<close> lists the digits
  zero of the version of Unicode in use. The runs do not overlap and hold no colon, no
  full stop and no white space. \<^verbatim>\<open>float\<close> reads a digit as its offset in its run.
\<close>

definition is_digit :: "int list \<Rightarrow> int \<Rightarrow> bool" where
  "is_digit zeros cp = list_ex (\<lambda>z. z \<le> cp \<and> cp \<le> z + 9) zeros"

definition digit_val :: "int list \<Rightarrow> int \<Rightarrow> int" where
  "digit_val zeros cp =
     (case find (\<lambda>z. z \<le> cp \<and> cp \<le> z + 9) zeros of
        None \<Rightarrow> 0
      | Some z \<Rightarrow> cp - z)"

text \<open>The digits zero of Unicode 14.0, the version of CPython 3.11.\<close>

definition unicode_zeros :: "int list" where
  "unicode_zeros =
     [48, 1632, 1776, 1984, 2406, 2534, 2662, 2790, 2918, 3046, 3174, 3302, 3430, 3558,
      3664, 3792, 3872, 4160, 4240, 6112, 6160, 6470, 6608, 6784, 6800, 6992, 7088, 7232,
      7248, 42528, 43216, 43264, 43472, 43504, 43600, 44016, 65296, 66720, 68912, 69734,
      69872, 69942, 70096, 70384, 70736, 70864, 71248, 71360, 71472, 71904, 72016, 72784,
      73040, 73120, 92768, 92864, 93008, 120782, 120792, 120802, 120812, 120822, 123200,
      123632, 125264, 130032]"

text \<open>
  A letter of a pattern, given in lower case, against a code point under
  \<^verbatim>\<open>re.IGNORECASE\<close>. The letters of the two patterns are c, g, p and a; the only code
  points that lower-case to one of them are the letter and its capital.
\<close>

definition ci_match :: "char \<Rightarrow> int \<Rightarrow> bool" where
  "ci_match k cp = (cp = of_char k \<or> cp + 32 = of_char k)"

text \<open>
  The group \<^verbatim>\<open>(\d+\.?\d*)\<close> matched at the start of a text. Every quantifier is
  greedy and the rest of the pattern is empty, so the match never backtracks.
\<close>

definition match_number :: "int list \<Rightarrow> int list \<Rightarrow> int list option" where
  "match_number zeros s =
     (let d1 = takeWhile (is_digit zeros) s; r1 = dropWhile (is_digit zeros) s
      in if d1 = [] then None
         else (case r1 of
                 [] \<Rightarrow> Some d1
               | c # r2 \<Rightarrow> if c = 46 then Some (d1 @ [c] @ takeWhile (is_digit zeros) r2)
                            else Some d1))"

text \<open>
  One of the patterns \<^verbatim>\<open>CGPA[:\s]*(\d+\.?\d*)\<close> and \<^verbatim>\<open>GPA[:\s]*(\d+\.?\d*)\<close> matched
  at the start of a text under \<^verbatim>\<open>re.IGNORECASE\<close>; the keyword is given in lower case.
  The classes \<^verbatim>\<open>[:\s]\<close> and \<^verbatim>\<open>\d\<close> are disjoint, so giving back separators never
  turns a failed match into a match. The result is group 1.
\<close>

definition match_here :: "int list \<Rightarrow> string \<Rightarrow> int list \<Rightarrow> int list option" where
  "match_here zeros kw s =
     (if list_all2 ci_match kw (take (length kw) s)
      then match_number zeros (dropWhile is_sep (drop (length kw) s))
      else None)"

text \<open>\<^verbatim>\<open>re.search\<close>: the match at the leftmost start position that has one.\<close>

fun re_search :: "int list \<Rightarrow> string \<Rightarrow> int list \<Rightarrow> int list option" where
  "re_search zeros kw [] = match_here zeros kw []"
| "re_search zeros kw (c # cs) =
     (case match_here zeros kw (c # cs) of
        Some g \<Rightarrow> Some g
      | None \<Rightarrow> re_search zeros kw cs)"

text \<open>
  The double nearest to a rational number, ties to the even mantissa, and an infinity
  beyond the largest double. \<open>bit_length n\<close> is the number of binary digits of \<open>n\<close>,
  \<open>pow2 e\<close> is 2 to the power \<open>e\<close>. For \<open>x = a / b\<close> with \<open>k\<close> the difference of the bit
  lengths of \<open>a\<close> and \<open>b\<close>, \<open>x\<close> lies between \<open>pow2 (k - 1)\<close> and \<open>pow2 (k + 1)\<close>, so the
  binary exponent of \<open>x\<close> is \<open>k\<close> or \<open>k - 1\<close>. A double has 53 binary digits and its last
  digit weighs at least \<open>pow2 (- 1074)\<close>.
\<close>

function bit_length :: "int \<Rightarrow> nat" where
  "bit_length n = (if n \<le> 0 then 0 else Suc (bit_length (n div 2)))"
  by pat_completeness auto
termination
  by (relation "measure nat") auto

definition pow2 :: "int \<Rightarrow> rat" where
  "pow2 e = (if 0 \<le> e then 2 ^ nat e else 1 / 2 ^ nat (- e))"

definition round_half_even :: "rat \<Rightarrow> int" where
  "round_half_even r =
     (let f = \<lfloor>r\<rfloor>; d = r - of_int f
      in if d < 1 / 2 then f
         else if 1 / 2 < d then f + 1
         else if even f then f else f + 1)"

definition round_mantissa :: "rat \<Rightarrow> int \<times> int" where
  "round_mantissa x =
     (let (a, b) = quotient_of x;
          k = int (bit_length a) - int (bit_length b);
          lg = (if pow2 k \<le> x then k else k - 1);
          e = max (lg - 52) (- 1074)
      in (round_half_even (x / pow2 e), e))"

text \<open>
  \<open>round_mantissa x\<close> is the pair \<open>(m, e)\<close> of the nearest double \<open>m * pow2 e\<close> to a
  positive \<open>x\<close>, were the exponent unbounded above. The largest double is
  \<open>(2 ^ 53 - 1) * pow2 971\<close>; what rounds beyond it is an infinity.
\<close>

definition round_magnitude :: "rat \<Rightarrow> rat option" where
  "round_magnitude x =
     (let (m, e) = round_mantissa x
      in if 971 < e \<or> (e = 971 \<and> 9007199254740992 \<le> m) then None
         else Some (of_int m * pow2 e))"

definition round_double :: "rat \<Rightarrow> pyfloat" where
  "round_double x =
     (if x = 0 then Finite 0
      else if 0 < x then
        (case round_magnitude x of None \<Rightarrow> PosInf | Some y \<Rightarrow> Finite y)
      else
        (case round_magnitude (- x) of None \<Rightarrow> NegInf | Some y \<Rightarrow> Finite (- y)))"

text \<open>\<^verbatim>\<open>float\<close> on a matched group \<^verbatim>\<open>digits[.digits]\<close>.\<close>

definition digits_val :: "int list \<Rightarrow> int list \<Rightarrow> int" where
  "digits_val zeros s = foldl (\<lambda>a c. 10 * a + digit_val zeros c) 0 s"

definition float_of :: "int list \<Rightarrow> int list \<Rightarrow> pyfloat" where
  "float_of zeros g =
     (let ip = takeWhile (\<lambda>c. c \<noteq> 46) g;
          fp = drop 1 (dropWhile (\<lambda>c. c \<noteq> 46) g)
      in round_double
           (of_int (digits_val zeros ip) + of_int (digits_val zeros fp) / 10 ^ length fp))"

text \<open>\<^verbatim>\<open>cgpa / 10\<close> on a float.\<close>

fun float_div10 :: "pyfloat \<Rightarrow> pyfloat" where
  "float_div10 (Finite x) = round_double (x / 10)"
| "float_div10 PosInf = PosInf"
| "float_div10 NegInf = NegInf"

text \<open>The loop of \<^verbatim>\<open>_extract_cgpa\<close> over its list of patterns.\<close>

fun extract_cgpa_loop :: "int list \<Rightarrow> string list \<Rightarrow> int list \<Rightarrow> pyfloat option" where
  "extract_cgpa_loop zeros [] text = None"
| "extract_cgpa_loop zeros (pattern # patterns) text =
     (case re_search zeros pattern text of
        Some g \<Rightarrow>
          (let cgpa = float_of zeros g
           in Some (if float_le cgpa 10 then cgpa else float_div10 cgpa))
      | None \<Rightarrow> extract_cgpa_loop zeros patterns text)"

definition extract_cgpa :: "int list \<Rightarrow> int list \<Rightarrow> pyfloat option" where
  "extract_cgpa zeros text = extract_cgpa_loop zeros [''cgpa'', ''gpa''] text"

text \<open>A string literal as a text.\<close>

definition str :: "string \<Rightarrow> int list" where
  "str s = map of_char s"

text \<open>\<^verbatim>\<open>p in t\<close> on strings.\<close>

fun contains :: "string \<Rightarrow> string \<Rightarrow> bool" where
  "contains p [] = (p = [])"
| "contains p (c # cs) = (take (length p) (c # cs) = p \<or> contains p cs)"

definition skills_db :: "string list" where
  "skills_db =
     [''Python'', ''Java'', ''JavaScript'', ''C++'', ''C'', ''React'', ''Node.js'',
      ''Angular'', ''Vue'', ''Machine Learning'', ''Deep Learning'', ''TensorFlow'',
      ''PyTorch'', ''Keras'', ''MongoDB'', ''MySQL'', ''PostgreSQL'', ''Redis'', ''AWS'',
      ''Azure'', ''Docker'', ''Kubernetes'', ''Git'']"

definition extract_skills :: "string \<Rightarrow> string list" where
  "extract_skills text =
     (let text_lower = lower text
      in filter (\<lambda>s. contains (lower s) text_lower) skills_db)"

definition has_keyword :: "string \<Rightarrow> string list \<Rightarrow> bool" where
  "has_keyword text keywords =
     (let text_lower = lower text
      in list_ex (\<lambda>kw. contains kw text_lower) keywords)"

text \<open>
  \<^verbatim>\<open>extract_features\<close>, on a text of code points below 256. Among these the decimal
  digits are 0 to 9 in every version of Unicode, so that any table of digits serves.
\<close>

definition extract_features :: "string \<Rightarrow> features" where
  "extract_features text =
     \<lparr> cgpa = extract_cgpa unicode_zeros (str text),
       skills = extract_skills text,
       has_internship = has_keyword text [''intern'', ''internship''],
       has_projects = has_keyword text [''project''],
       has_research = has_keyword text [''research'', ''publication'', ''paper''],
       has_certifications =
         has_keyword text [''certified'', ''certificate'', ''certification''] \<rparr>"

subsection \<open>The rule-based scorer\<close>

text \<open>
  \<^verbatim>\<open>rule_based_score\<close> up to the line before "Ensure no negative scores": the
  accumulated, unnormalized point totals.
\<close>

definition rule_based_score_points :: "features \<Rightarrow> scores" where
  "rule_based_score_points f =
     (let cgpa = (case cgpa f of None \<Rightarrow> Finite 0
                  | Some c \<Rightarrow> if c = Finite 0 then Finite 0 else c);
          skills_count = length (skills f);
          scores = [(''Private Job'', 0), (''Higher Studies'', 0),
                    (''Research Field'', 0), (''Skill Improvement'', 0)];
          scores = (if has_internship f then add_to ''Private Job'' 35 scores else scores);
          scores = (if skills_count \<ge> 10 then add_to ''Private Job'' 30 scores
                    else if skills_count \<ge> 8 then add_to ''Private Job'' 20 scores
                    else scores);
          scores = (if float_ge cgpa (15 / 2) then add_to ''Private Job'' 20 scores
                    else scores);
          scores = (if has_projects f then add_to ''Private Job'' 15 scores else scores);
          scores = (if float_ge cgpa 9 then add_to ''Higher Studies'' 50 scores
                    else if float_ge cgpa (17 / 2) then add_to ''Higher Studies'' 40 scores
                    else if float_ge cgpa 8 then add_to ''Higher Studies'' 25 scores
                    else scores);
          scores = (if has_projects f then add_to ''Higher Studies'' 15 scores else scores);
          scores = (if skills_count \<ge> 6 then add_to ''Higher Studies'' 10 scores else scores);
          scores = (if has_internship f then add_to ''Higher Studies'' (- 5) scores
                    else scores);
          scores = (if has_research f then add_to ''Research Field'' 50 scores else scores);
          scores = (if float_ge cgpa 9 then add_to ''Research Field'' 35 scores
                    else if float_ge cgpa (17 / 2) then add_to ''Research Field'' 25 scores
                    else scores);
          scores = (if has_projects f then add_to ''Research Field'' 10 scores else scores);
          scores = (if skills_count < 4 then add_to ''Skill Improvement'' 40 scores
                    else if skills_count < 6 then add_to ''Skill Improvement'' 20 scores
                    else scores);
          scores = (if float_lt cgpa 6 then add_to ''Skill Improvement'' 35 scores
                    else if float_lt cgpa 7 then add_to ''Skill Improvement'' 20 scores
                    else scores);
          scores = (if \<not> has_internship f then add_to ''Skill Improvement'' 15 scores
                    else scores);
          scores = (if \<not> has_projects f then add_to ''Skill Improvement'' 15 scores
                    else scores)
      in scores)"

text \<open>
  The rest of \<^verbatim>\<open>rule_based_score\<close>: clamp at zero, then divide by the maximum, or
  return 0.25 everywhere when the maximum is not positive.
\<close>

definition rule_based_score_normalize :: "scores \<Rightarrow> error + scores" where
  "rule_based_score_normalize s =
     (let scores = map (\<lambda>(k, v). (k, max 0 v)) s
      in case py_max (map snd scores) of
           Inl e \<Rightarrow> Inl e
         | Inr max_score \<Rightarrow>
             if max_score > 0 then Inr (map (\<lambda>(k, v). (k, v / max_score)) scores)
             else Inr (map (\<lambda>(k, v). (k, 1 / 4)) scores))"

definition rule_based_score :: "features \<Rightarrow> error + scores" where
  "rule_based_score f = rule_based_score_normalize (rule_based_score_points f)"

subsection \<open>Closed forms of the point totals\<close>

text \<open>
  The value that \<^verbatim>\<open>features["cgpa"] or 0\<close> binds, and the four totals written as sums,
  one summand for each \<^verbatim>\<open>if\<close>/\<open>elif\<close> chain of the source. They serve the rule table
  and the proofs.
\<close>

definition cgpa_or_zero :: "features \<Rightarrow> pyfloat" where
  "cgpa_or_zero f = (case cgpa f of None \<Rightarrow> Finite 0 | Some c \<Rightarrow> c)"

definition private_job_points :: "features \<Rightarrow> rat" where
  "private_job_points f =
     (if has_internship f then 35 else 0)
     + (if length (skills f) \<ge> 10 then 30 else if length (skills f) \<ge> 8 then 20 else 0)
     + (if float_ge (cgpa_or_zero f) (15 / 2) then 20 else 0)
     + (if has_projects f then 15 else 0)"

definition higher_studies_points :: "features \<Rightarrow> rat" where
  "higher_studies_points f =
     (if float_ge (cgpa_or_zero f) 9 then 50
      else if float_ge (cgpa_or_zero f) (17 / 2) then 40
      else if float_ge (cgpa_or_zero f) 8 then 25 else 0)
     + (if has_projects f then 15 else 0)
     + (if length (skills f) \<ge> 6 then 10 else 0)
     + (if has_internship f then - 5 else 0)"

definition research_field_points :: "features \<Rightarrow> rat" where
  "research_field_points f =
     (if has_research f then 50 else 0)
     + (if float_ge (cgpa_or_zero f) 9 then 35
        else if float_ge (cgpa_or_zero f) (17 / 2) then 25 else 0)
     + (if has_projects f then 10 else 0)"

definition skill_improvement_points :: "features \<Rightarrow> rat" where
  "skill_improvement_points f =
     (if length (skills f) < 4 then 40 else if length (skills f) < 6 then 20 else 0)
     + (if float_lt (cgpa_or_zero f) 6 then 35
        else if float_lt (cgpa_or_zero f) 7 then 20 else 0)
     + (if \<not> has_internship f then 15 else 0)
     + (if \<not> has_projects f then 15 else 0)"

text \<open>The maximum of the four clamped totals, the divisor of the normalization.\<close>

definition max_score :: "features \<Rightarrow> rat" where
  "max_score f =
     max (max 0 (private_job_points f))
       (max (max 0 (higher_studies_points f))
          (max (max 0 (research_field_points f)) (max 0 (skill_improvement_points f))))"

subsection \<open>The rule table, as the specification words it\<close>

text \<open>
  The specification describes the scorer as a table of independent additive rules, each
  a category, a predicate over the feature record and a point delta; the rules that hold
  are summed per category. The table below lists the branches of the source in source
  order, an \<^verbatim>\<open>elif\<close> branch carrying the negation of the branches before it. It is
  compared with \<open>rule_based_score_points\<close>, which follows the code.
\<close>

type_synonym rule = "string \<times> (features \<Rightarrow> bool) \<times> rat"

definition rule_table :: "rule list" where
  "rule_table =
     [(''Private Job'', (\<lambda>f. has_internship f), 35),
      (''Private Job'', (\<lambda>f. length (skills f) \<ge> 10), 30),
      (''Private Job'', (\<lambda>f. 8 \<le> length (skills f) \<and> length (skills f) < 10), 20),
      (''Private Job'', (\<lambda>f. float_ge (cgpa_or_zero f) (15 / 2)), 20),
      (''Private Job'', (\<lambda>f. has_projects f), 15),
      (''Higher Studies'', (\<lambda>f. float_ge (cgpa_or_zero f) 9), 50),
      (''Higher Studies'',
         (\<lambda>f. float_ge (cgpa_or_zero f) (17 / 2) \<and> float_lt (cgpa_or_zero f) 9), 40),
      (''Higher Studies'',
         (\<lambda>f. float_ge (cgpa_or_zero f) 8 \<and> float_lt (cgpa_or_zero f) (17 / 2)), 25),
      (''Higher Studies'', (\<lambda>f. has_projects f), 15),
      (''Higher Studies'', (\<lambda>f. length (skills f) \<ge> 6), 10),
      (''Higher Studies'', (\<lambda>f. has_internship f), - 5),
      (''Research Field'', (\<lambda>f. has_research f), 50),
      (''Research Field'', (\<lambda>f. float_ge (cgpa_or_zero f) 9), 35),
      (''Research Field'',
         (\<lambda>f. float_ge (cgpa_or_zero f) (17 / 2) \<and> float_lt (cgpa_or_zero f) 9), 25),
      (''Research Field'', (\<lambda>f. has_projects f), 10),
      (''Skill Improvement'', (\<lambda>f. length (skills f) < 4), 40),
      (''Skill Improvement'', (\<lambda>f. 4 \<le> length (skills f) \<and> length (skills f) < 6), 20),
      (''Skill Improvement'', (\<lambda>f. float_lt (cgpa_or_zero f) 6), 35),
      (''Skill Improvement'',
         (\<lambda>f. float_ge (cgpa_or_zero f) 6 \<and> float_lt (cgpa_or_zero f) 7), 20),
      (''Skill Improvement'', (\<lambda>f. \<not> has_internship f), 15),
      (''Skill Improvement'', (\<lambda>f. \<not> has_projects f), 15)]"

text \<open>The sum of the deltas of the rules of one category that hold of a feature record.\<close>

definition table_total :: "string \<Rightarrow> features \<Rightarrow> rat" where
  "table_total c f =
     sum_list (map (\<lambda>(c', p, d). if c' = c \<and> p f then d else 0) rule_table)"

subsection \<open>Fusion\<close>

text \<open>The weights set by \<^verbatim>\<open>__init__\<close>.\<close>

definition ml_weight :: rat where
  "ml_weight = 1 / 2"

definition rule_weight :: rat where
  "rule_weight = 1 / 2"

text \<open>
  The label map written by \<^verbatim>\<open>data_preprocess.py\<close>, which \<^verbatim>\<open>train_model.py\<close> copies
  to the file that \<^verbatim>\<open>__init__\<close> loads.
\<close>

definition label_map :: "(string \<times> nat) list" where
  "label_map =
     [(''Private Job'', 0), (''Higher Studies'', 1), (''Research Field'', 2),
      (''Skill Improvement'', 3)]"

text \<open>
  The loop of \<^verbatim>\<open>predict\<close> that fills \<^verbatim>\<open>ensemble_probs\<close>, over the keys of the label
  map in their order.
\<close>

definition ensemble_combine :: "string list \<Rightarrow> scores \<Rightarrow> scores \<Rightarrow> scores" where
  "ensemble_combine label_keys ml_probs_dict rule_probs =
     map (\<lambda>category.
            (category,
             ml_weight * dict_get ml_probs_dict category
             + rule_weight * dict_get rule_probs category))
         label_keys"

text \<open>The renormalization of \<^verbatim>\<open>predict\<close>: divide by the total when it is positive.\<close>

definition ensemble_normalize :: "scores \<Rightarrow> scores" where
  "ensemble_normalize ensemble_probs =
     (let total = sum_list (map snd ensemble_probs)
      in if total > 0 then map (\<lambda>(k, v). (k, v / total)) ensemble_probs
         else ensemble_probs)"

text \<open>
  The fusion step of \<^verbatim>\<open>predict\<close>, from "Ensemble: combine ML and rules" to the
  confidence: the winning category, its confidence and the fused distribution.
\<close>

definition predict_ensemble ::
  "string list \<Rightarrow> scores \<Rightarrow> scores \<Rightarrow> error + (string \<times> rat \<times> scores)" where
  "predict_ensemble label_keys ml_probs_dict rule_probs =
     (let ensemble_probs =
            ensemble_normalize (ensemble_combine label_keys ml_probs_dict rule_probs)
      in case py_argmax ensemble_probs of
           Inl e \<Rightarrow> Inl e
         | Inr final_category \<Rightarrow>
             Inr (final_category, dict_get ensemble_probs final_category, ensemble_probs))"

text \<open>The dict returned by \<^verbatim>\<open>predict\<close>.\<close>

record result =
  category :: string
  confidence :: rat
  probabilities :: scores
  features :: features
  ml_prediction :: string
  rule_prediction :: string
  ml_probabilities :: scores
  rule_probabilities :: scores

text \<open>
  \<^verbatim>\<open>predict\<close>. The embedder and the classifier are not part of the repository: what they
  return for the text, the predicted label and the probability dict, are parameters.
\<close>

definition predict :: "string list \<Rightarrow> string \<Rightarrow> scores \<Rightarrow> string \<Rightarrow> error + result" where
  "predict label_keys ml_pred ml_probs_dict resume_text =
     (let feats = extract_features resume_text
      in case rule_based_score feats of
           Inl e \<Rightarrow> Inl e
         | Inr rule_probs \<Rightarrow>
             (case py_argmax rule_probs of
                Inl e \<Rightarrow> Inl e
              | Inr rule_pred \<Rightarrow>
                  (case predict_ensemble label_keys ml_probs_dict rule_probs of
                     Inl e \<Rightarrow> Inl e
                   | Inr (final_category, conf, ensemble_probs) \<Rightarrow>
                       Inr \<lparr> category = final_category,
                             confidence = conf,
                             probabilities = ensemble_probs,
                             features = feats,
                             ml_prediction = ml_pred,
                             rule_prediction = rule_pred,
                             ml_probabilities = ml_probs_dict,
                             rule_probabilities = rule_probs \<rparr>)))"

subsection \<open>Recommendations\<close>

definition generate_recommendations :: "result \<Rightarrow> string list" where
  "generate_recommendations result =
     (let category = category result;
          features = features result;
          recommendations = []
      in if category = ''Private Job'' then
           (let recommendations =
                  (if length (skills features) < 10
                   then recommendations @ [''Learn 2-3 more in-demand technologies'']
                   else recommendations);
                recommendations =
                  (if \<not> has_certifications features
                   then recommendations @ [''Get industry certifications (AWS, Azure, etc.)'']
                   else recommendations);
                recommendations = recommendations @ [''Practice DSA on LeetCode/HackerRank''];
                recommendations = recommendations @ [''Build strong GitHub portfolio'']
            in recommendations)
         else if category = ''Higher Studies'' then
           recommendations
           @ [''Prepare for GRE/GATE exams'']
           @ [''Research universities and programs'']
           @ [''Request letters of recommendation'']
           @ [''Write compelling Statement of Purpose'']
         else if category = ''Research Field'' then
           recommendations
           @ [''Publish papers in conferences/journals'']
           @ [''Connect with professors in your field'']
           @ [''Apply for research internships'']
           @ [''Consider PhD programs'']
         else
           (let recommendations =
                  (if length (skills features) < 5
                   then recommendations
                        @ [''Learn core programming: Python, Java, or JavaScript'']
                   else recommendations);
                recommendations =
                  (if \<not> has_projects features
                   then recommendations @ [''Build 3-4 substantial projects'']
                   else recommendations);
                recommendations = recommendations @ [''Take online courses (Coursera, Udemy)''];
                recommendations = recommendations @ [''Participate in hackathons''];
                recommendations =
                  (if (case cgpa features of None \<Rightarrow> False
                       | Some c \<Rightarrow> c \<noteq> Finite 0 \<and> float_lt c 7)
                   then recommendations @ [''Focus on improving academic performance'']
                   else recommendations)
            in recommendations))"

subsection \<open>CGPA extraction, as the specification words it\<close>

text \<open>
  The specification asks for the first match of \<^verbatim>\<open>CGPA\<close> or \<^verbatim>\<open>GPA\<close> followed by a
  number: one scan of the text, either keyword accepted at each start position. It is
  compared with \<open>extract_cgpa\<close>, which follows the code.
\<close>

fun spec_first_match :: "int list \<Rightarrow> int list \<Rightarrow> int list option" where
  "spec_first_match zeros [] = None"
| "spec_first_match zeros (c # cs) =
     (case match_here zeros ''cgpa'' (c # cs) of
        Some g \<Rightarrow> Some g
      | None \<Rightarrow>
          (case match_here zeros ''gpa'' (c # cs) of
             Some g \<Rightarrow> Some g
           | None \<Rightarrow> spec_first_match zeros cs))"

definition spec_extract_cgpa :: "int list \<Rightarrow> int list \<Rightarrow> pyfloat option" where
  "spec_extract_cgpa zeros text =
     (case spec_first_match zeros text of
        None \<Rightarrow> None
      | Some g \<Rightarrow>
          (let x = float_of zeros g in Some (if float_le x 10 then x else float_div10 x)))"

text \<open>
  A pattern matches at position \<open>i\<close> of a text with group \<open>g\<close>; it matches at no position
  before \<open>i\<close>; it matches nowhere.
\<close>

definition matches_at ::
  "int list \<Rightarrow> string \<Rightarrow> int list \<Rightarrow> nat \<Rightarrow> int list \<Rightarrow> bool" where
  "matches_at zeros kw text i g =
     (i \<le> length text \<and> match_here zeros kw (drop i text) = Some g)"

definition no_match_before :: "int list \<Rightarrow> string \<Rightarrow> int list \<Rightarrow> nat \<Rightarrow> bool" where
  "no_match_before zeros kw text i =
     list_all (\<lambda>j. match_here zeros kw (drop j text) = None) [0..<i]"

definition no_match :: "int list \<Rightarrow> string \<Rightarrow> int list \<Rightarrow> bool" where
  "no_match zeros kw text = no_match_before zeros kw text (Suc (length text))"

section \<open>Auxiliary lemmas\<close>

lemma add_to_zero: "add_to k 0 d = d"
  by (induction d) (auto simp: add_to_def)

lemma add_to_if1: "(if b then add_to k p d else d) = add_to k (if b then p else 0) d"
  by (simp add: add_to_zero)

lemma add_to_if_both:
  "(if b then add_to k p d else add_to k q d) = add_to k (if b then p else q) d"
  by simp

lemma add_to_four:
  "add_to ''Private Job'' x [(''Private Job'', a), (''Higher Studies'', b),
      (''Research Field'', c), (''Skill Improvement'', d)]
   = [(''Private Job'', a + x), (''Higher Studies'', b),
      (''Research Field'', c), (''Skill Improvement'', d)]"
  "add_to ''Higher Studies'' x [(''Private Job'', a), (''Higher Studies'', b),
      (''Research Field'', c), (''Skill Improvement'', d)]
   = [(''Private Job'', a), (''Higher Studies'', b + x),
      (''Research Field'', c), (''Skill Improvement'', d)]"
  "add_to ''Research Field'' x [(''Private Job'', a), (''Higher Studies'', b),
      (''Research Field'', c), (''Skill Improvement'', d)]
   = [(''Private Job'', a), (''Higher Studies'', b),
      (''Research Field'', c + x), (''Skill Improvement'', d)]"
  "add_to ''Skill Improvement'' x [(''Private Job'', a), (''Higher Studies'', b),
      (''Research Field'', c), (''Skill Improvement'', d)]
   = [(''Private Job'', a), (''Higher Studies'', b),
      (''Research Field'', c), (''Skill Improvement'', d + x)]"
  by (simp_all add: add_to_def)

lemma float_lt_iff: "float_lt c t \<longleftrightarrow> \<not> float_ge c t"
  by (cases c) auto

lemma float_ge_mono: "float_ge c t \<Longrightarrow> u \<le> t \<Longrightarrow> float_ge c u"
  by (cases c) auto

lemma cgpa_or_zero_alt:
  "(case cgpa f of None \<Rightarrow> Finite 0 | Some c \<Rightarrow> if c = Finite 0 then Finite 0 else c)
   = cgpa_or_zero f"
  by (simp add: cgpa_or_zero_def split: option.splits)

lemma rule_based_score_points_closed:
  "rule_based_score_points f =
     [(''Private Job'', private_job_points f), (''Higher Studies'', higher_studies_points f),
      (''Research Field'', research_field_points f),
      (''Skill Improvement'', skill_improvement_points f)]"
  unfolding rule_based_score_points_def Let_def cgpa_or_zero_alt
    add_to_if1 add_to_if_both add_to_four
    private_job_points_def higher_studies_points_def research_field_points_def
    skill_improvement_points_def
  by (simp only: add_0 add.assoc)

lemma dict_get_four:
  "dict_get [(''Private Job'', a), (''Higher Studies'', b),
             (''Research Field'', c), (''Skill Improvement'', d)] k =
     (if k = ''Private Job'' then a else if k = ''Higher Studies'' then b
      else if k = ''Research Field'' then c else if k = ''Skill Improvement'' then d else 0)"
  by (simp add: dict_get_def)

lemma table_total_closed:
  "table_total k f =
     (if k = ''Private Job'' then private_job_points f
      else if k = ''Higher Studies'' then higher_studies_points f
      else if k = ''Research Field'' then research_field_points f
      else if k = ''Skill Improvement'' then skill_improvement_points f else 0)"
proof -
  have pj: "table_total ''Private Job'' f = private_job_points f"
    by (simp add: table_total_def rule_table_def private_job_points_def)
  have hs: "table_total ''Higher Studies'' f = higher_studies_points f"
    by (cases "cgpa_or_zero f")
      (simp_all add: table_total_def rule_table_def higher_studies_points_def)
  have rf: "table_total ''Research Field'' f = research_field_points f"
    by (cases "cgpa_or_zero f")
      (simp_all add: table_total_def rule_table_def research_field_points_def)
  have si: "table_total ''Skill Improvement'' f = skill_improvement_points f"
    by (cases "cgpa_or_zero f")
      (simp_all add: table_total_def rule_table_def skill_improvement_points_def)
  have other: "table_total k f = 0"
    if "k \<noteq> ''Private Job''" "k \<noteq> ''Higher Studies''" "k \<noteq> ''Research Field''"
       "k \<noteq> ''Skill Improvement''"
    using that by (auto simp add: table_total_def rule_table_def)
  show ?thesis using pj hs rf si other by simp
qed

lemma cgpa_or_zero_simps:
  "cgpa_or_zero (f\<lparr>cgpa := None\<rparr>) = Finite 0"
  "cgpa_or_zero (f\<lparr>cgpa := Some x\<rparr>) = x"
  "cgpa_or_zero (f\<lparr>skills := ss\<rparr>) = cgpa_or_zero f"
  "cgpa_or_zero (f\<lparr>has_internship := b\<rparr>) = cgpa_or_zero f"
  by (simp_all add: cgpa_or_zero_def)

lemma py_max_fold: "(\<lambda>y m. if m < y then y else m) = (max :: rat \<Rightarrow> rat \<Rightarrow> rat)"
  by (auto simp add: fun_eq_iff max_def)

lemma py_max_Max: "xs \<noteq> [] \<Longrightarrow> py_max xs = Inr (Max (set xs))"
proof (cases xs)
  case Nil
  assume "xs \<noteq> []"
  with Nil show ?thesis by simp
next
  case (Cons a list)
  have "fold max list a = Max (set (a # list))"
    by (rule Max.set_eq_fold [symmetric])
  with Cons show ?thesis by (simp add: py_max_fold)
qed

lemma private_job_points_ge: "has_internship f \<Longrightarrow> 35 \<le> private_job_points f"
  by (simp add: private_job_points_def)

lemma skill_improvement_points_ge: "\<not> has_internship f \<Longrightarrow> 15 \<le> skill_improvement_points f"
  by (simp add: skill_improvement_points_def)

lemma max_score_pos: "0 < max_score f"
proof (cases "has_internship f")
  case True
  then have "0 < private_job_points f" using private_job_points_ge [of f] by simp
  then show ?thesis by (simp add: max_score_def less_max_iff_disj)
next
  case False
  then have "0 < skill_improvement_points f" using skill_improvement_points_ge [of f] by simp
  then show ?thesis by (simp add: max_score_def less_max_iff_disj)
qed

lemma py_max_points:
  "py_max (map snd (map (\<lambda>(k, v). (k, max 0 v)) (rule_based_score_points f))) = Inr (max_score f)"
  by (simp add: rule_based_score_points_closed py_max_fold max_score_def max.commute max.left_commute)

lemma rule_based_score_closed:
  "rule_based_score f =
     Inr [(''Private Job'', max 0 (private_job_points f) / max_score f),
          (''Higher Studies'', max 0 (higher_studies_points f) / max_score f),
          (''Research Field'', max 0 (research_field_points f) / max_score f),
          (''Skill Improvement'', max 0 (skill_improvement_points f) / max_score f)]"
  unfolding rule_based_score_def rule_based_score_normalize_def Let_def py_max_points
  using max_score_pos [of f] by (simp add: rule_based_score_points_closed)

lemma normalize_general:
  assumes "s \<noteq> []"
  shows "\<exists>m out. py_max (map (\<lambda>(k, v). max 0 v) s) = Inr m
           \<and> rule_based_score_normalize s = Inr out
           \<and> 0 \<le> m
           \<and> map fst out = map fst s
           \<and> (0 < m \<longrightarrow> out = map (\<lambda>(k, v). (k, max 0 v / m)) s
                  \<and> (\<forall>v\<in>set (map snd out). 0 \<le> v \<and> v \<le> 1) \<and> 1 \<in> set (map snd out))
           \<and> (m = 0 \<longrightarrow> out = map (\<lambda>(k, v). (k, 1 / 4)) s)"
proof -
  define vs where "vs = map (\<lambda>(k, v). max 0 v) s"
  define m where "m = Max (set vs)"
  have vs_ne: "vs \<noteq> []" using assms by (simp add: vs_def)
  have vs_alt: "map snd (map (\<lambda>(k, v). (k, max 0 v)) s) = vs"
    by (simp add: vs_def case_prod_beta comp_def)
  have pm: "py_max vs = Inr m" using vs_ne by (simp add: py_max_Max m_def)
  have m_in: "m \<in> set vs" unfolding m_def using vs_ne by (intro Max_in) simp_all
  have le_m: "v \<le> m" if "v \<in> set vs" for v
    unfolding m_def using that by (intro Max_ge) simp_all
  have nonneg: "0 \<le> v" if "v \<in> set vs" for v
    using that by (auto simp add: vs_def)
  have m_nonneg: "0 \<le> m" using m_in nonneg by blast
  define out where
    "out = (if 0 < m then map (\<lambda>(k, v). (k, max 0 v / m)) s else map (\<lambda>(k, v). (k, 1 / 4)) s)"
  have norm: "rule_based_score_normalize s = Inr out"
    unfolding rule_based_score_normalize_def Let_def vs_alt pm out_def
    by (simp add: case_prod_beta comp_def)
  have keys: "map fst out = map fst s"
    by (simp add: out_def case_prod_beta comp_def)
  have vals: "map snd out = map (\<lambda>v. v / m) vs" if "0 < m"
    using that by (simp add: out_def vs_def case_prod_beta comp_def)
  have range: "\<forall>v\<in>set (map snd out). 0 \<le> v \<and> v \<le> 1" if pos: "0 < m"
  proof
    fix v assume "v \<in> set (map snd out)"
    then have "v \<in> (\<lambda>w. w / m) ` set vs" using vals [OF pos] by simp
    then obtain w where w: "w \<in> set vs" "v = w / m" by blast
    from nonneg [OF w(1)] le_m [OF w(1)] pos show "0 \<le> v \<and> v \<le> 1"
      by (simp add: w(2))
  qed
  have one: "1 \<in> set (map snd out)" if pos: "0 < m"
  proof -
    have "m / m \<in> set (map snd out)" using vals [OF pos] m_in by simp
    with pos show ?thesis by simp
  qed
  show ?thesis
    using pm norm m_nonneg keys range one unfolding vs_def
    by (intro exI [of _ m] exI [of _ out]) (simp add: out_def)
qed

lemma rule_based_score_bounds:
  "\<exists>m out. py_max (map (\<lambda>(k, v). max 0 v) (rule_based_score_points f)) = Inr m
      \<and> rule_based_score f = Inr out
      \<and> 0 \<le> m
      \<and> map fst out =
          [''Private Job'', ''Higher Studies'', ''Research Field'', ''Skill Improvement'']
      \<and> (0 < m \<longrightarrow> out = map (\<lambda>(k, v). (k, max 0 v / m)) (rule_based_score_points f))
      \<and> (m = 0 \<longrightarrow> out = map (\<lambda>(k, v). (k, 1 / 4)) (rule_based_score_points f))
      \<and> (\<forall>v\<in>set (map snd out). 0 \<le> v \<and> v \<le> 1)
      \<and> (1 \<in> set (map snd out) \<or> (\<forall>v\<in>set (map snd out). v = 1 / 4))"
proof -
  have ne: "rule_based_score_points f \<noteq> []" by (simp add: rule_based_score_points_closed)
  obtain m out where
    h: "py_max (map (\<lambda>(k, v). max 0 v) (rule_based_score_points f)) = Inr m
           \<and> rule_based_score_normalize (rule_based_score_points f) = Inr out
           \<and> 0 \<le> m
           \<and> map fst out = map fst (rule_based_score_points f)
           \<and> (0 < m \<longrightarrow> out = map (\<lambda>(k, v). (k, max 0 v / m)) (rule_based_score_points f)
                  \<and> (\<forall>v\<in>set (map snd out). 0 \<le> v \<and> v \<le> 1) \<and> 1 \<in> set (map snd out))
           \<and> (m = 0 \<longrightarrow> out = map (\<lambda>(k, v). (k, 1 / 4)) (rule_based_score_points f))"
    using normalize_general [OF ne] by (elim exE)
  from h have pm: "py_max (map (\<lambda>(k, v). max 0 v) (rule_based_score_points f)) = Inr m"
    and nonneg: "0 \<le> m"
    and pos: "0 < m \<longrightarrow> out = map (\<lambda>(k, v). (k, max 0 v / m)) (rule_based_score_points f)"
    and zero: "m = 0 \<longrightarrow> out = map (\<lambda>(k, v). (k, 1 / 4)) (rule_based_score_points f)"
    by blast+
  have keys: "map fst out =
      [''Private Job'', ''Higher Studies'', ''Research Field'', ''Skill Improvement'']"
    using h by (simp add: rule_based_score_points_closed)
  have "(\<forall>v\<in>set (map snd out). 0 \<le> v \<and> v \<le> 1)
        \<and> (1 \<in> set (map snd out) \<or> (\<forall>v\<in>set (map snd out). v = 1 / 4))"
  proof (cases "0 < m")
    case True
    with h show ?thesis by blast
  next
    case False
    with h have "m = 0" by simp
    with h have "out = map (\<lambda>(k, v). (k, 1 / 4)) (rule_based_score_points f)" by blast
    then show ?thesis by (simp add: rule_based_score_points_closed)
  qed
  then have vals: "\<forall>v\<in>set (map snd out). 0 \<le> v \<and> v \<le> 1"
    and alt: "1 \<in> set (map snd out) \<or> (\<forall>v\<in>set (map snd out). v = 1 / 4)"
    by (rule conjunct1, rule conjunct2)
  have n: "rule_based_score f = Inr out" using h by (simp add: rule_based_score_def)
  show ?thesis
  proof (intro exI [of _ m] exI [of _ out] conjI)
    show "py_max (map (\<lambda>(k, v). max 0 v) (rule_based_score_points f)) = Inr m" by (rule pm)
    show "rule_based_score f = Inr out" by (rule n)
    show "0 \<le> m" by (rule nonneg)
    show "map fst out =
          [''Private Job'', ''Higher Studies'', ''Research Field'', ''Skill Improvement'']"
      by (rule keys)
    show "0 < m \<longrightarrow> out = map (\<lambda>(k, v). (k, max 0 v / m)) (rule_based_score_points f)"
      by (rule pos)
    show "m = 0 \<longrightarrow> out = map (\<lambda>(k, v). (k, 1 / 4)) (rule_based_score_points f)"
      by (rule zero)
    show "\<forall>v\<in>set (map snd out). 0 \<le> v \<and> v \<le> 1" by (rule vals)
    show "1 \<in> set (map snd out) \<or> (\<forall>v\<in>set (map snd out). v = 1 / 4)" by (rule alt)
  qed
qed

lemma cgpa_update_numeric:
  "max 0 (higher_studies_points (f\<lparr>cgpa := Some (Finite 6)\<rparr>)) / max_score (f\<lparr>cgpa := Some (Finite 6)\<rparr>)
     \<le> max 0 (higher_studies_points (f\<lparr>cgpa := Some (Finite (19 / 2))\<rparr>))
        / max_score (f\<lparr>cgpa := Some (Finite (19 / 2))\<rparr>)
   \<and> max 0 (skill_improvement_points (f\<lparr>cgpa := Some (Finite (19 / 2))\<rparr>))
        / max_score (f\<lparr>cgpa := Some (Finite (19 / 2))\<rparr>)
     \<le> max 0 (skill_improvement_points (f\<lparr>cgpa := Some (Finite 6)\<rparr>))
        / max_score (f\<lparr>cgpa := Some (Finite 6)\<rparr>)"
proof -
  consider "length (skills f) < 4" | "4 \<le> length (skills f)" "length (skills f) < 6"
    | "6 \<le> length (skills f)" "length (skills f) < 8"
    | "8 \<le> length (skills f)" "length (skills f) < 10" | "10 \<le> length (skills f)"
    by linarith
  then show ?thesis
    by cases
      (cases "has_internship f"; cases "has_projects f"; cases "has_research f";
        simp add: max_score_def private_job_points_def higher_studies_points_def
          research_field_points_def skill_improvement_points_def cgpa_or_zero_def)+
qed

lemma no_match_before_0: "no_match_before zeros kw text 0"
  by (simp add: no_match_before_def)

lemma no_match_before_Suc:
  "no_match_before zeros kw (c # cs) (Suc j) \<longleftrightarrow>
     match_here zeros kw (c # cs) = None \<and> no_match_before zeros kw cs j"
proof -
  have "[0..<Suc j] = 0 # map Suc [0..<j]"
    by (simp add: upt_conv_Cons map_Suc_upt del: upt_Suc)
  then have "no_match_before zeros kw (c # cs) (Suc j) =
      list_all (\<lambda>j. match_here zeros kw (drop j (c # cs)) = None) (0 # map Suc [0..<j])"
    by (simp only: no_match_before_def)
  then show ?thesis
    by (simp add: no_match_before_def list.pred_map comp_def)
qed

lemma re_search_leftmost:
  "matches_at zeros kw text i g \<Longrightarrow> no_match_before zeros kw text i \<Longrightarrow> re_search zeros kw text = Some g"
proof (induction "text" arbitrary: i)
  case Nil
  then show ?case by (simp add: matches_at_def)
next
  case (Cons c cs)
  show ?case
  proof (cases i)
    case 0
    with Cons.prems show ?thesis by (simp add: matches_at_def)
  next
    case (Suc j)
    with Cons.prems have none: "match_here zeros kw (c # cs) = None"
      and rest: "no_match_before zeros kw cs j"
      by (simp_all add: no_match_before_Suc)
    from Cons.prems Suc have "matches_at zeros kw cs j g" by (simp add: matches_at_def)
    from Cons.IH [OF this rest] none show ?thesis by simp
  qed
qed

lemma re_search_no_match: "no_match zeros kw text \<Longrightarrow> re_search zeros kw text = None"
proof (induction "text")
  case Nil
  then show ?case by (simp add: no_match_def no_match_before_def)
next
  case (Cons c cs)
  then show ?case by (simp add: no_match_def no_match_before_Suc)
qed

lemma re_search_cases:
  "no_match zeros kw text \<or> (\<exists>i g. matches_at zeros kw text i g \<and> no_match_before zeros kw text i)"
proof (induction "text")
  case Nil
  show ?case
  proof (cases "match_here zeros kw []")
    case None
    then show ?thesis by (simp add: no_match_def no_match_before_def)
  next
    case (Some g)
    then have "matches_at zeros kw [] 0 g \<and> no_match_before zeros kw [] 0"
      by (simp add: matches_at_def no_match_before_0)
    then show ?thesis by blast
  qed
next
  case (Cons c cs)
  show ?case
  proof (cases "match_here zeros kw (c # cs)")
    case (Some g)
    then have "matches_at zeros kw (c # cs) 0 g \<and> no_match_before zeros kw (c # cs) 0"
      by (simp add: matches_at_def no_match_before_0)
    then show ?thesis by blast
  next
    case None
    from Cons.IH show ?thesis
    proof
      assume "no_match zeros kw cs"
      with None show ?thesis by (simp add: no_match_def no_match_before_Suc)
    next
      assume "\<exists>i g. matches_at zeros kw cs i g \<and> no_match_before zeros kw cs i"
      then obtain i g where "matches_at zeros kw cs i g" "no_match_before zeros kw cs i" by blast
      with None have "matches_at zeros kw (c # cs) (Suc i) g \<and> no_match_before zeros kw (c # cs) (Suc i)"
        by (simp add: matches_at_def no_match_before_Suc)
      then show ?thesis by blast
    qed
  qed
qed

text \<open>
  In \<^verbatim>\<open>predict\<close> the rule dict is the output of \<open>rule_based_score\<close>, which holds a 1.
  With the label map of the repository and an ML dict without negative values, the
  weighted combination therefore sums to at least 1/2: the renormalization always
  divides, and the sum is never 0.
\<close>

lemma rule_scores_sum_ge_one:
  "1 \<le> (max 0 (private_job_points f) + max 0 (higher_studies_points f)
          + max 0 (research_field_points f) + max 0 (skill_improvement_points f))
         / max_score f"
proof -
  have "max_score f \<le> max 0 (private_job_points f) + max 0 (higher_studies_points f)
          + max 0 (research_field_points f) + max 0 (skill_improvement_points f)"
    by (simp add: max_score_def max_def)
  with max_score_pos [of f] show ?thesis by (simp add: le_divide_eq)
qed

lemma fused_total_ge_half:
  assumes rule: "rule_based_score f = Inr rule_probs"
    and ml: "\<forall>k\<in>set (map fst label_map). 0 \<le> dict_get ml_probs_dict k"
  shows "1 / 2 \<le> sum_list (map snd (ensemble_combine (map fst label_map) ml_probs_dict
                                     rule_probs))"
proof -
  have r: "rule_probs =
     [(''Private Job'', max 0 (private_job_points f) / max_score f),
      (''Higher Studies'', max 0 (higher_studies_points f) / max_score f),
      (''Research Field'', max 0 (research_field_points f) / max_score f),
      (''Skill Improvement'', max 0 (skill_improvement_points f) / max_score f)]"
    using rule by (simp add: rule_based_score_closed)
  have m: "0 \<le> dict_get ml_probs_dict ''Private Job''"
    "0 \<le> dict_get ml_probs_dict ''Higher Studies''"
    "0 \<le> dict_get ml_probs_dict ''Research Field''"
    "0 \<le> dict_get ml_probs_dict ''Skill Improvement''"
    using ml by (simp_all add: label_map_def)
  define A where "A = dict_get ml_probs_dict ''Private Job''
      + dict_get ml_probs_dict ''Higher Studies'' + dict_get ml_probs_dict ''Research Field''
      + dict_get ml_probs_dict ''Skill Improvement''"
  define B where "B = (max 0 (private_job_points f) + max 0 (higher_studies_points f)
          + max 0 (research_field_points f) + max 0 (skill_improvement_points f))
         / max_score f"
  have total: "sum_list (map snd (ensemble_combine (map fst label_map) ml_probs_dict
      rule_probs)) = A / 2 + B / 2"
    unfolding r A_def B_def
    by (simp add: ensemble_combine_def label_map_def dict_get_four ml_weight_def
        rule_weight_def add_divide_distrib)
  have "0 \<le> A" using m by (simp add: A_def)
  moreover have "1 \<le> B" unfolding B_def by (rule rule_scores_sum_ge_one)
  ultimately show ?thesis unfolding total by linarith
qed

section \<open>The claims\<close>

text \<open>
  Claim C1. For every feature record the unnormalized point totals of the rule scorer are
  the per-category sums of the rule table: the dict has the four categories as keys, and
  the entry of each category (of every key, an absent key reading 0) is the sum of the
  deltas of the table's rules of that category that hold. In particular a CGPA of at
  least 9.0 puts "Higher Studies" 50 points and "Research Field" 35 points above their
  totals without a CGPA; fewer than 4 skills put "Skill Improvement" 40 points above its
  total with six or more skills; an internship puts "Private Job" 35 points above and
  "Higher Studies" 5 points below their totals without one. Every rule of the table is a
  predicate of the feature record alone, so none reads a category's score.
\<close>

theorem rule_based_score_points_table:
  "map fst (rule_based_score_points f) =
     [''Private Job'', ''Higher Studies'', ''Research Field'', ''Skill Improvement'']
   \<and> (\<forall>k. dict_get (rule_based_score_points f) k = table_total k f)
   \<and> (float_ge (cgpa_or_zero f) 9 \<longrightarrow>
        dict_get (rule_based_score_points f) ''Higher Studies'' =
          dict_get (rule_based_score_points (f\<lparr>cgpa := None\<rparr>)) ''Higher Studies'' + 50
        \<and> dict_get (rule_based_score_points f) ''Research Field'' =
          dict_get (rule_based_score_points (f\<lparr>cgpa := None\<rparr>)) ''Research Field'' + 35)
   \<and> (length (skills f) < 4 \<longrightarrow>
        (\<forall>ss. length ss \<ge> 6 \<longrightarrow>
           dict_get (rule_based_score_points f) ''Skill Improvement'' =
             dict_get (rule_based_score_points (f\<lparr>skills := ss\<rparr>)) ''Skill Improvement'' + 40))
   \<and> (has_internship f \<longrightarrow>
        dict_get (rule_based_score_points f) ''Private Job'' =
          dict_get (rule_based_score_points (f\<lparr>has_internship := False\<rparr>)) ''Private Job'' + 35
        \<and> dict_get (rule_based_score_points f) ''Higher Studies'' =
          dict_get (rule_based_score_points (f\<lparr>has_internship := False\<rparr>)) ''Higher Studies'' - 5)"
proof (intro conjI allI impI)
  show "map fst (rule_based_score_points f) =
     [''Private Job'', ''Higher Studies'', ''Research Field'', ''Skill Improvement'']"
    by (simp add: rule_based_score_points_closed)
next
  fix k show "dict_get (rule_based_score_points f) k = table_total k f"
    by (simp add: rule_based_score_points_closed dict_get_four table_total_closed)
next
  assume "float_ge (cgpa_or_zero f) 9"
  then show "dict_get (rule_based_score_points f) ''Higher Studies'' =
          dict_get (rule_based_score_points (f\<lparr>cgpa := None\<rparr>)) ''Higher Studies'' + 50"
    by (simp add: rule_based_score_points_closed dict_get_four higher_studies_points_def
        cgpa_or_zero_simps)
next
  assume "float_ge (cgpa_or_zero f) 9"
  then show "dict_get (rule_based_score_points f) ''Research Field'' =
          dict_get (rule_based_score_points (f\<lparr>cgpa := None\<rparr>)) ''Research Field'' + 35"
    by (simp add: rule_based_score_points_closed dict_get_four research_field_points_def
        cgpa_or_zero_simps)
next
  fix ss :: "string list"
  assume "length (skills f) < 4" "length ss \<ge> 6"
  then show "dict_get (rule_based_score_points f) ''Skill Improvement'' =
             dict_get (rule_based_score_points (f\<lparr>skills := ss\<rparr>)) ''Skill Improvement'' + 40"
    by (simp add: rule_based_score_points_closed dict_get_four skill_improvement_points_def
        cgpa_or_zero_simps)
next
  assume "has_internship f"
  then show "dict_get (rule_based_score_points f) ''Private Job'' =
          dict_get (rule_based_score_points (f\<lparr>has_internship := False\<rparr>)) ''Private Job'' + 35"
    by (simp add: rule_based_score_points_closed dict_get_four private_job_points_def
        cgpa_or_zero_simps)
next
  assume "has_internship f"
  then show "dict_get (rule_based_score_points f) ''Higher Studies'' =
          dict_get (rule_based_score_points (f\<lparr>has_internship := False\<rparr>)) ''Higher Studies'' - 5"
    by (simp add: rule_based_score_points_closed dict_get_four higher_studies_points_def
        cgpa_or_zero_simps)
qed

theorem rule_based_score_points_table_witness:
  "float_ge (cgpa_or_zero \<lparr>cgpa = Some (Finite (19 / 2)), skills = [''C'', ''Git''],
       has_internship = True, has_projects = False, has_research = False,
       has_certifications = False\<rparr>) 9
   \<and> length (skills \<lparr>cgpa = Some (Finite (19 / 2)), skills = [''C'', ''Git''], has_internship = True,
       has_projects = False, has_research = False, has_certifications = False\<rparr>) < 4
   \<and> has_internship \<lparr>cgpa = Some (Finite (19 / 2)), skills = [''C'', ''Git''], has_internship = True,
       has_projects = False, has_research = False, has_certifications = False\<rparr>
   \<and> length (replicate 6 ''Java'') \<ge> 6
   \<and> rule_based_score_points \<lparr>cgpa = Some (Finite (19 / 2)), skills = [''C'', ''Git''],
       has_internship = True, has_projects = False, has_research = False,
       has_certifications = False\<rparr> =
       [(''Private Job'', 55), (''Higher Studies'', 45), (''Research Field'', 35),
        (''Skill Improvement'', 55)]
   \<and> dict_get (rule_based_score_points \<lparr>cgpa = None, skills = [''C'', ''Git''],
       has_internship = True, has_projects = False, has_research = False,
       has_certifications = False\<rparr>) ''Higher Studies'' = - 5
   \<and> dict_get (rule_based_score_points \<lparr>cgpa = Some (Finite (19 / 2)), skills = replicate 6 ''Java'',
       has_internship = True, has_projects = False, has_research = False,
       has_certifications = False\<rparr>) ''Skill Improvement'' = 15
   \<and> table_total ''Higher Studies'' \<lparr>cgpa = Some (Finite (19 / 2)), skills = [''C'', ''Git''],
       has_internship = True, has_projects = False, has_research = False,
       has_certifications = False\<rparr> = 45"
  using rule_based_score_points_table [of "\<lparr>cgpa = Some (Finite (19 / 2)), skills = [''C'', ''Git''],
       has_internship = True, has_projects = False, has_research = False,
       has_certifications = False\<rparr>"]
  by (simp add: rule_based_score_points_closed dict_get_four table_total_closed
      private_job_points_def higher_studies_points_def research_field_points_def
      skill_improvement_points_def cgpa_or_zero_def)

text \<open>
  Claim C2. For every feature record, with \<open>m\<close> the maximum over the four categories of the
  accumulated totals clamped at 0: the rule scorer returns a dict with the four categories
  as keys; when \<open>m\<close> is positive every value is the clamped total of its category divided
  by \<open>m\<close>; when \<open>m\<close> is 0 every value is 0.25; every value lies in [0,1], and some value
  is exactly 1 or all four are 0.25. The same holds of the post-processing applied to any
  non-empty dict of accumulated totals, where the maximum can be 0.
\<close>

theorem rule_based_score_range:
  "(\<exists>m out. py_max (map (\<lambda>(k, v). max 0 v) (rule_based_score_points f)) = Inr m
      \<and> rule_based_score f = Inr out
      \<and> 0 \<le> m
      \<and> map fst out =
          [''Private Job'', ''Higher Studies'', ''Research Field'', ''Skill Improvement'']
      \<and> (0 < m \<longrightarrow> out = map (\<lambda>(k, v). (k, max 0 v / m)) (rule_based_score_points f))
      \<and> (m = 0 \<longrightarrow> out = map (\<lambda>(k, v). (k, 1 / 4)) (rule_based_score_points f))
      \<and> (\<forall>v\<in>set (map snd out). 0 \<le> v \<and> v \<le> 1)
      \<and> (1 \<in> set (map snd out) \<or> (\<forall>v\<in>set (map snd out). v = 1 / 4)))
   \<and> (\<forall>s. s \<noteq> [] \<longrightarrow>
        (\<exists>m out. py_max (map (\<lambda>(k, v). max 0 v) s) = Inr m
           \<and> rule_based_score_normalize s = Inr out
           \<and> 0 \<le> m
           \<and> map fst out = map fst s
           \<and> (0 < m \<longrightarrow> out = map (\<lambda>(k, v). (k, max 0 v / m)) s
                  \<and> (\<forall>v\<in>set (map snd out). 0 \<le> v \<and> v \<le> 1) \<and> 1 \<in> set (map snd out))
           \<and> (m = 0 \<longrightarrow> out = map (\<lambda>(k, v). (k, 1 / 4)) s)))"
proof (intro conjI allI impI)
  show "\<exists>m out. py_max (map (\<lambda>(k, v). max 0 v) (rule_based_score_points f)) = Inr m
      \<and> rule_based_score f = Inr out
      \<and> 0 \<le> m
      \<and> map fst out =
          [''Private Job'', ''Higher Studies'', ''Research Field'', ''Skill Improvement'']
      \<and> (0 < m \<longrightarrow> out = map (\<lambda>(k, v). (k, max 0 v / m)) (rule_based_score_points f))
      \<and> (m = 0 \<longrightarrow> out = map (\<lambda>(k, v). (k, 1 / 4)) (rule_based_score_points f))
      \<and> (\<forall>v\<in>set (map snd out). 0 \<le> v \<and> v \<le> 1)
      \<and> (1 \<in> set (map snd out) \<or> (\<forall>v\<in>set (map snd out). v = 1 / 4))"
    by (rule rule_based_score_bounds)
next
  fix s :: scores
  assume "s \<noteq> []"
  then show "\<exists>m out. py_max (map (\<lambda>(k, v). max 0 v) s) = Inr m
           \<and> rule_based_score_normalize s = Inr out
           \<and> 0 \<le> m
           \<and> map fst out = map fst s
           \<and> (0 < m \<longrightarrow> out = map (\<lambda>(k, v). (k, max 0 v / m)) s
                  \<and> (\<forall>v\<in>set (map snd out). 0 \<le> v \<and> v \<le> 1) \<and> 1 \<in> set (map snd out))
           \<and> (m = 0 \<longrightarrow> out = map (\<lambda>(k, v). (k, 1 / 4)) s)"
    by (rule normalize_general)
qed

theorem rule_based_score_range_witness:
  "py_max (map (\<lambda>(k, v). max 0 v) (rule_based_score_points
       \<lparr>cgpa = Some (Finite (19 / 2)), skills = [''C'', ''Git''], has_internship = True,
        has_projects = False, has_research = False, has_certifications = False\<rparr>)) = Inr 55
   \<and> (0 :: rat) < 55
   \<and> rule_based_score
       \<lparr>cgpa = Some (Finite (19 / 2)), skills = [''C'', ''Git''], has_internship = True,
        has_projects = False, has_research = False, has_certifications = False\<rparr> =
      Inr [(''Private Job'', 1), (''Higher Studies'', 9 / 11), (''Research Field'', 7 / 11),
           (''Skill Improvement'', 1)]
   \<and> [(''Private Job'', 0), (''Higher Studies'', - 5), (''Research Field'', 0),
       (''Skill Improvement'', 0 :: rat)] \<noteq> []
   \<and> py_max (map (\<lambda>(k, v). max 0 v) [(''Private Job'', 0), (''Higher Studies'', - 5),
        (''Research Field'', 0), (''Skill Improvement'', 0)]) = Inr 0
   \<and> rule_based_score_normalize [(''Private Job'', 0), (''Higher Studies'', - 5),
        (''Research Field'', 0), (''Skill Improvement'', 0)] =
      Inr [(''Private Job'', 1 / 4), (''Higher Studies'', 1 / 4), (''Research Field'', 1 / 4),
           (''Skill Improvement'', 1 / 4)]
   \<and> [(''Private Job'', 10), (''Higher Studies'', - 5), (''Research Field'', 20),
       (''Skill Improvement'', 0 :: rat)] \<noteq> []
   \<and> py_max (map (\<lambda>(k, v). max 0 v) [(''Private Job'', 10), (''Higher Studies'', - 5),
        (''Research Field'', 20), (''Skill Improvement'', 0)]) = Inr 20
   \<and> (0 :: rat) < 20
   \<and> rule_based_score_normalize [(''Private Job'', 10), (''Higher Studies'', - 5),
        (''Research Field'', 20), (''Skill Improvement'', 0)] =
      Inr [(''Private Job'', 1 / 2), (''Higher Studies'', 0), (''Research Field'', 1),
           (''Skill Improvement'', 0)]"
proof -
  let ?f = "\<lparr>cgpa = Some (Finite (19 / 2)), skills = [''C'', ''Git''], has_internship = True,
        has_projects = False, has_research = False, has_certifications = False\<rparr>"
  have pts: "rule_based_score_points ?f =
      [(''Private Job'', 55), (''Higher Studies'', 45), (''Research Field'', 35),
       (''Skill Improvement'', 55)]"
    by (simp add: rule_based_score_points_closed private_job_points_def
        higher_studies_points_def research_field_points_def skill_improvement_points_def
        cgpa_or_zero_def)
  from rule_based_score_range [of ?f, THEN conjunct1]
  have rec: "py_max (map (\<lambda>(k, v). max 0 v) (rule_based_score_points ?f)) = Inr 55
      \<and> rule_based_score ?f =
        Inr [(''Private Job'', 1), (''Higher Studies'', 9 / 11), (''Research Field'', 7 / 11),
             (''Skill Improvement'', 1)]"
    unfolding pts by auto
  from rule_based_score_range [of ?f, THEN conjunct2, rule_format,
      of "[(''Private Job'', 0), (''Higher Studies'', - 5), (''Research Field'', 0),
           (''Skill Improvement'', 0)]"]
  have deg: "py_max (map (\<lambda>(k, v). max 0 v) [(''Private Job'', 0), (''Higher Studies'', - 5),
        (''Research Field'', 0), (''Skill Improvement'', 0)]) = Inr 0
      \<and> rule_based_score_normalize [(''Private Job'', 0), (''Higher Studies'', - 5),
        (''Research Field'', 0), (''Skill Improvement'', 0)] =
      Inr [(''Private Job'', 1 / 4), (''Higher Studies'', 1 / 4), (''Research Field'', 1 / 4),
           (''Skill Improvement'', 1 / 4)]"
    by auto
  from rule_based_score_range [of ?f, THEN conjunct2, rule_format,
      of "[(''Private Job'', 10), (''Higher Studies'', - 5), (''Research Field'', 20),
           (''Skill Improvement'', 0)]"]
  have pos: "py_max (map (\<lambda>(k, v). max 0 v) [(''Private Job'', 10), (''Higher Studies'', - 5),
        (''Research Field'', 20), (''Skill Improvement'', 0)]) = Inr 20
      \<and> rule_based_score_normalize [(''Private Job'', 10), (''Higher Studies'', - 5),
        (''Research Field'', 20), (''Skill Improvement'', 0)] =
      Inr [(''Private Job'', 1 / 2), (''Higher Studies'', 0), (''Research Field'', 1),
           (''Skill Improvement'', 0)]"
    by auto
  from rec deg pos show ?thesis by simp
qed

text \<open>
  Claim C6. For every feature record, replacing the CGPA 6.0 by 9.5 and keeping every
  other feature, the rule scorer returns in both cases, its output for "Higher Studies"
  does not decrease and its output for "Skill Improvement" does not increase.
\<close>

theorem rule_based_score_cgpa_monotone:
  "\<exists>lo hi. rule_based_score (f\<lparr>cgpa := Some (Finite 6)\<rparr>) = Inr lo
     \<and> rule_based_score (f\<lparr>cgpa := Some (Finite (19 / 2))\<rparr>) = Inr hi
     \<and> dict_get lo ''Higher Studies'' \<le> dict_get hi ''Higher Studies''
     \<and> dict_get hi ''Skill Improvement'' \<le> dict_get lo ''Skill Improvement''"
  using cgpa_update_numeric [of f]
  by (simp add: rule_based_score_closed dict_get_four)

text \<open>
  Claim C9. For every feature record some category has a strictly positive accumulated
  total: "Private Job" has at least 35 points when there is an internship, "Skill
  Improvement" at least 15 when there is none. Hence the maximum of the clamped totals is
  strictly positive, the scorer returns the totals divided by it and not the uniform
  0.25 dict, and some output value is exactly 1.
\<close>

theorem max_score_positive:
  "(has_internship f \<longrightarrow> 35 \<le> dict_get (rule_based_score_points f) ''Private Job'')
   \<and> (\<not> has_internship f \<longrightarrow>
        15 \<le> dict_get (rule_based_score_points f) ''Skill Improvement'')
   \<and> (\<exists>m out. py_max (map (\<lambda>(k, v). max 0 v) (rule_based_score_points f)) = Inr m
        \<and> 0 < m
        \<and> rule_based_score f = Inr out
        \<and> out = map (\<lambda>(k, v). (k, max 0 v / m)) (rule_based_score_points f)
        \<and> out \<noteq> map (\<lambda>(k, v). (k, 1 / 4)) (rule_based_score_points f)
        \<and> 1 \<in> set (map snd out))"
proof (intro conjI impI)
  assume "has_internship f"
  then show "35 \<le> dict_get (rule_based_score_points f) ''Private Job''"
    by (simp add: rule_based_score_points_closed dict_get_four private_job_points_ge)
next
  assume "\<not> has_internship f"
  then show "15 \<le> dict_get (rule_based_score_points f) ''Skill Improvement''"
    by (simp add: rule_based_score_points_closed dict_get_four skill_improvement_points_ge)
next
  have ne: "rule_based_score_points f \<noteq> []" by (simp add: rule_based_score_points_closed)
  obtain m out where
    h: "py_max (map (\<lambda>(k, v). max 0 v) (rule_based_score_points f)) = Inr m
           \<and> rule_based_score_normalize (rule_based_score_points f) = Inr out
           \<and> 0 \<le> m
           \<and> map fst out = map fst (rule_based_score_points f)
           \<and> (0 < m \<longrightarrow> out = map (\<lambda>(k, v). (k, max 0 v / m)) (rule_based_score_points f)
                  \<and> (\<forall>v\<in>set (map snd out). 0 \<le> v \<and> v \<le> 1) \<and> 1 \<in> set (map snd out))
           \<and> (m = 0 \<longrightarrow> out = map (\<lambda>(k, v). (k, 1 / 4)) (rule_based_score_points f))"
    using normalize_general [OF ne] by (elim exE)
  have "py_max (map (\<lambda>(k, v). max 0 v) (rule_based_score_points f)) = Inr (max_score f)"
    by (simp add: rule_based_score_points_closed py_max_fold max_score_def max.commute
        max.left_commute)
  with h have m: "m = max_score f" by simp
  then have pos: "0 < m" by (simp add: max_score_pos)
  with h have out: "out = map (\<lambda>(k, v). (k, max 0 v / m)) (rule_based_score_points f)"
    and one: "1 \<in> set (map snd out)" by blast+
  have neq: "out \<noteq> map (\<lambda>(k, v). (k, 1 / 4)) (rule_based_score_points f)"
  proof
    assume "out = map (\<lambda>(k, v). (k, 1 / 4)) (rule_based_score_points f)"
    then have "set (map snd out) = {1 / 4}" by (simp add: rule_based_score_points_closed)
    with one show False by simp
  qed
  have pm: "py_max (map (\<lambda>(k, v). max 0 v) (rule_based_score_points f)) = Inr m"
    and n: "rule_based_score f = Inr out"
    using h by (simp_all add: rule_based_score_def)
  show "\<exists>m out. py_max (map (\<lambda>(k, v). max 0 v) (rule_based_score_points f)) = Inr m
        \<and> 0 < m
        \<and> rule_based_score f = Inr out
        \<and> out = map (\<lambda>(k, v). (k, max 0 v / m)) (rule_based_score_points f)
        \<and> out \<noteq> map (\<lambda>(k, v). (k, 1 / 4)) (rule_based_score_points f)
        \<and> 1 \<in> set (map snd out)"
  proof (intro exI [of _ m] exI [of _ out] conjI)
    show "py_max (map (\<lambda>(k, v). max 0 v) (rule_based_score_points f)) = Inr m" by (rule pm)
    show "0 < m" by (rule pos)
    show "rule_based_score f = Inr out" by (rule n)
    show "out = map (\<lambda>(k, v). (k, max 0 v / m)) (rule_based_score_points f)" by (rule out)
    show "out \<noteq> map (\<lambda>(k, v). (k, 1 / 4)) (rule_based_score_points f)" by (rule neq)
    show "1 \<in> set (map snd out)" by (rule one)
  qed
qed

theorem max_score_positive_witness:
  "has_internship \<lparr>cgpa = None, skills = [], has_internship = True, has_projects = False,
      has_research = False, has_certifications = False\<rparr>
   \<and> 35 \<le> dict_get (rule_based_score_points \<lparr>cgpa = None, skills = [],
        has_internship = True, has_projects = False, has_research = False,
        has_certifications = False\<rparr>) ''Private Job''
   \<and> \<not> has_internship \<lparr>cgpa = None, skills = [], has_internship = False,
        has_projects = False, has_research = False, has_certifications = False\<rparr>
   \<and> 15 \<le> dict_get (rule_based_score_points \<lparr>cgpa = None, skills = [],
        has_internship = False, has_projects = False, has_research = False,
        has_certifications = False\<rparr>) ''Skill Improvement''"
  using max_score_positive [of "\<lparr>cgpa = None, skills = [], has_internship = True,
        has_projects = False, has_research = False, has_certifications = False\<rparr>"]
    max_score_positive [of "\<lparr>cgpa = None, skills = [], has_internship = False,
        has_projects = False, has_research = False, has_certifications = False\<rparr>"]
  by (simp add: rule_based_score_points_closed dict_get_four private_job_points_def
      skill_improvement_points_def cgpa_or_zero_def)

text \<open>
  Claim C10. For every feature record an absent CGPA and a CGPA of 0.0 give the same
  accumulated totals and the same scores. With the CGPA absent the rule \<^verbatim>\<open>cgpa < 6.0\<close>
  adds 35 points to "Skill Improvement", and the totals of the other three categories
  hold no CGPA contribution: each is the sum of its skill-count and boolean rules only.
\<close>

theorem absent_cgpa_is_zero:
  "rule_based_score_points (f\<lparr>cgpa := None\<rparr>) = rule_based_score_points (f\<lparr>cgpa := Some (Finite 0)\<rparr>)
   \<and> rule_based_score (f\<lparr>cgpa := None\<rparr>) = rule_based_score (f\<lparr>cgpa := Some (Finite 0)\<rparr>)
   \<and> rule_based_score_points (f\<lparr>cgpa := None\<rparr>) =
       [(''Private Job'',
           (if has_internship f then 35 else 0)
           + (if length (skills f) \<ge> 10 then 30 else if length (skills f) \<ge> 8 then 20 else 0)
           + (if has_projects f then 15 else 0)),
        (''Higher Studies'',
           (if has_projects f then 15 else 0)
           + (if length (skills f) \<ge> 6 then 10 else 0)
           + (if has_internship f then - 5 else 0)),
        (''Research Field'',
           (if has_research f then 50 else 0) + (if has_projects f then 10 else 0)),
        (''Skill Improvement'',
           (if length (skills f) < 4 then 40 else if length (skills f) < 6 then 20 else 0)
           + 35
           + (if \<not> has_internship f then 15 else 0)
           + (if \<not> has_projects f then 15 else 0))]"
proof (intro conjI)
  show eq: "rule_based_score_points (f\<lparr>cgpa := None\<rparr>)
        = rule_based_score_points (f\<lparr>cgpa := Some (Finite 0)\<rparr>)"
    by (simp add: rule_based_score_points_closed private_job_points_def
        higher_studies_points_def research_field_points_def skill_improvement_points_def
        cgpa_or_zero_def)
  show "rule_based_score (f\<lparr>cgpa := None\<rparr>) = rule_based_score (f\<lparr>cgpa := Some (Finite 0)\<rparr>)"
    by (simp only: rule_based_score_def eq)
  show "rule_based_score_points (f\<lparr>cgpa := None\<rparr>) =
       [(''Private Job'',
           (if has_internship f then 35 else 0)
           + (if length (skills f) \<ge> 10 then 30 else if length (skills f) \<ge> 8 then 20 else 0)
           + (if has_projects f then 15 else 0)),
        (''Higher Studies'',
           (if has_projects f then 15 else 0)
           + (if length (skills f) \<ge> 6 then 10 else 0)
           + (if has_internship f then - 5 else 0)),
        (''Research Field'',
           (if has_research f then 50 else 0) + (if has_projects f then 10 else 0)),
        (''Skill Improvement'',
           (if length (skills f) < 4 then 40 else if length (skills f) < 6 then 20 else 0)
           + 35
           + (if \<not> has_internship f then 15 else 0)
           + (if \<not> has_projects f then 15 else 0))]"
    by (simp add: rule_based_score_points_closed private_job_points_def
        higher_studies_points_def research_field_points_def skill_improvement_points_def
        cgpa_or_zero_def)
qed

text \<open>
  Claim C3, amended. For the empty text, feature extraction yields an absent CGPA, an empty
  skill list and four false boolean signals. On these features the rule scorer accumulates
  105 points for "Skill Improvement" (40 for fewer than 4 skills, 35 for a CGPA below 6.0,
  15 for no internship, 15 for no projects) and none elsewhere, and returns 1 for "Skill
  Improvement" and 0 for the other three categories.
\<close>

theorem empty_text_features_and_scores:
  "extract_features '''' =
     \<lparr>cgpa = None, skills = [], has_internship = False, has_projects = False,
      has_research = False, has_certifications = False\<rparr>
   \<and> rule_based_score_points (extract_features '''') =
     [(''Private Job'', 0), (''Higher Studies'', 0), (''Research Field'', 0),
      (''Skill Improvement'', 105)]
   \<and> rule_based_score (extract_features '''') =
     Inr [(''Private Job'', 0), (''Higher Studies'', 0), (''Research Field'', 0),
          (''Skill Improvement'', 1)]"
  by code_simp

text \<open>
  Claim C3 as stated asks for the uniform 0.25 dict on the features of the empty text; the
  scorer does not return it.
\<close>

theorem empty_text_counterexample:
  "rule_based_score (extract_features '''') \<noteq>
     Inr [(''Private Job'', 1 / 4), (''Higher Studies'', 1 / 4), (''Research Field'', 1 / 4),
          (''Skill Improvement'', 1 / 4)]"
  by code_simp

text \<open>
  Claim C5. With the weights 0.5 and 0.5 and the example dicts, the combination is
  (1/20, 7/20, 13/20, 1/20), its renormalization is (1/22, 7/22, 13/22, 1/22), which
  rounds to (0.0455, 0.3182, 0.5909, 0.0455), and the fusion step returns "Research
  Field" with the confidence 13/22, within 0.0005 of 0.591.
\<close>

theorem fusion_example:
  "ml_weight = 1 / 2 \<and> rule_weight = 1 / 2
   \<and> ensemble_combine (map fst label_map)
        [(''Private Job'', 1 / 10), (''Higher Studies'', 1 / 2), (''Research Field'', 3 / 10),
         (''Skill Improvement'', 1 / 10)]
        [(''Private Job'', 0), (''Higher Studies'', 1 / 5), (''Research Field'', 1),
         (''Skill Improvement'', 0)] =
      [(''Private Job'', 1 / 20), (''Higher Studies'', 7 / 20), (''Research Field'', 13 / 20),
       (''Skill Improvement'', 1 / 20)]
   \<and> ensemble_normalize
        [(''Private Job'', 1 / 20), (''Higher Studies'', 7 / 20), (''Research Field'', 13 / 20),
         (''Skill Improvement'', 1 / 20)] =
      [(''Private Job'', 1 / 22), (''Higher Studies'', 7 / 22), (''Research Field'', 13 / 22),
       (''Skill Improvement'', 1 / 22)]
   \<and> predict_ensemble (map fst label_map)
        [(''Private Job'', 1 / 10), (''Higher Studies'', 1 / 2), (''Research Field'', 3 / 10),
         (''Skill Improvement'', 1 / 10)]
        [(''Private Job'', 0), (''Higher Studies'', 1 / 5), (''Research Field'', 1),
         (''Skill Improvement'', 0)] =
      Inr (''Research Field'', 13 / 22,
           [(''Private Job'', 1 / 22), (''Higher Studies'', 7 / 22),
            (''Research Field'', 13 / 22), (''Skill Improvement'', 1 / 22)])
   \<and> \<bar>dict_get (ensemble_normalize
          [(''Private Job'', 1 / 20), (''Higher Studies'', 7 / 20),
           (''Research Field'', 13 / 20), (''Skill Improvement'', 1 / 20)]) ''Private Job''
        - 455 / 10000\<bar> \<le> 1 / 20000
   \<and> \<bar>dict_get (ensemble_normalize
          [(''Private Job'', 1 / 20), (''Higher Studies'', 7 / 20),
           (''Research Field'', 13 / 20), (''Skill Improvement'', 1 / 20)]) ''Higher Studies''
        - 3182 / 10000\<bar> \<le> 1 / 20000
   \<and> \<bar>dict_get (ensemble_normalize
          [(''Private Job'', 1 / 20), (''Higher Studies'', 7 / 20),
           (''Research Field'', 13 / 20), (''Skill Improvement'', 1 / 20)]) ''Research Field''
        - 5909 / 10000\<bar> \<le> 1 / 20000
   \<and> \<bar>dict_get (ensemble_normalize
          [(''Private Job'', 1 / 20), (''Higher Studies'', 7 / 20),
           (''Research Field'', 13 / 20), (''Skill Improvement'', 1 / 20)]) ''Skill Improvement''
        - 455 / 10000\<bar> \<le> 1 / 20000
   \<and> \<bar>(13 / 22 :: rat) - 591 / 1000\<bar> \<le> 1 / 2000"
proof -
  have comb: "ensemble_combine (map fst label_map)
        [(''Private Job'', 1 / 10), (''Higher Studies'', 1 / 2), (''Research Field'', 3 / 10),
         (''Skill Improvement'', 1 / 10)]
        [(''Private Job'', 0), (''Higher Studies'', 1 / 5), (''Research Field'', 1),
         (''Skill Improvement'', 0)] =
      [(''Private Job'', 1 / 20), (''Higher Studies'', 7 / 20), (''Research Field'', 13 / 20),
       (''Skill Improvement'', 1 / 20)]"
    by (simp add: ensemble_combine_def label_map_def dict_get_def ml_weight_def rule_weight_def)
  have norm: "ensemble_normalize
        [(''Private Job'', 1 / 20), (''Higher Studies'', 7 / 20), (''Research Field'', 13 / 20),
         (''Skill Improvement'', 1 / 20)] =
      [(''Private Job'', 1 / 22), (''Higher Studies'', 7 / 22), (''Research Field'', 13 / 22),
       (''Skill Improvement'', 1 / 22)]"
    by (simp add: ensemble_normalize_def)
  have pred: "predict_ensemble (map fst label_map)
        [(''Private Job'', 1 / 10), (''Higher Studies'', 1 / 2), (''Research Field'', 3 / 10),
         (''Skill Improvement'', 1 / 10)]
        [(''Private Job'', 0), (''Higher Studies'', 1 / 5), (''Research Field'', 1),
         (''Skill Improvement'', 0)] =
      Inr (''Research Field'', 13 / 22,
           [(''Private Job'', 1 / 22), (''Higher Studies'', 7 / 22),
            (''Research Field'', 13 / 22), (''Skill Improvement'', 1 / 22)])"
    unfolding predict_ensemble_def comb norm by (simp add: dict_get_def)
  show ?thesis
    unfolding comb norm pred by (simp add: dict_get_def ml_weight_def rule_weight_def)
qed

text \<open>
  Claim C7, amended. The patterns are tried in order, over any text and any table of
  decimal digits. If \<^verbatim>\<open>CGPA\<close>, separators and a number match somewhere in the text, the
  result comes from the number of the leftmost such match; if they match nowhere and
  \<^verbatim>\<open>GPA\<close>, separators and a number match somewhere, it comes from the number of the
  leftmost of these matches. In both cases the number is read as a float, the nearest
  double, and that float is returned unchanged when it is at most 10 and divided by 10,
  again to the nearest double, otherwise. If neither pattern matches anywhere the result
  is absent. Each pattern either matches nowhere or has a leftmost match, so the three
  cases cover every text. The text "CGPA: 92" yields the float 9.2, the same float as
  the numeral "9.2", and "CGPA: 7.5" yields 7.5; "CGPA: 10.0000000000000001" yields 10.0,
  since the float of that numeral is 10.0.
\<close>

theorem extract_cgpa_patterns_in_order:
  "(\<forall>i g. matches_at zeros ''cgpa'' text i g \<and> no_match_before zeros ''cgpa'' text i \<longrightarrow>
       extract_cgpa zeros text =
         Some (if float_le (float_of zeros g) 10 then float_of zeros g
               else float_div10 (float_of zeros g)))
   \<and> (\<forall>i g. no_match zeros ''cgpa'' text \<and> matches_at zeros ''gpa'' text i g
         \<and> no_match_before zeros ''gpa'' text i \<longrightarrow>
       extract_cgpa zeros text =
         Some (if float_le (float_of zeros g) 10 then float_of zeros g
               else float_div10 (float_of zeros g)))
   \<and> (no_match zeros ''cgpa'' text \<and> no_match zeros ''gpa'' text \<longrightarrow>
        extract_cgpa zeros text = None)
   \<and> (no_match zeros ''cgpa'' text
        \<or> (\<exists>i g. matches_at zeros ''cgpa'' text i g \<and> no_match_before zeros ''cgpa'' text i))
   \<and> (no_match zeros ''gpa'' text
        \<or> (\<exists>i g. matches_at zeros ''gpa'' text i g \<and> no_match_before zeros ''gpa'' text i))
   \<and> extract_cgpa unicode_zeros (str ''CGPA: 92'') =
        Some (Finite (2589569785738035 / 281474976710656))
   \<and> float_of unicode_zeros (str ''9.2'') = Finite (2589569785738035 / 281474976710656)
   \<and> extract_cgpa unicode_zeros (str ''CGPA: 7.5'') = Some (Finite (15 / 2))
   \<and> extract_cgpa unicode_zeros (str ''CGPA: 10.0000000000000001'') = Some (Finite 10)"
proof (intro conjI allI impI)
  fix i g
  assume "matches_at zeros ''cgpa'' text i g \<and> no_match_before zeros ''cgpa'' text i"
  then have "re_search zeros ''cgpa'' text = Some g" by (blast intro: re_search_leftmost)
  then show "extract_cgpa zeros text =
         Some (if float_le (float_of zeros g) 10 then float_of zeros g
               else float_div10 (float_of zeros g))"
    by (simp add: extract_cgpa_def)
next
  fix i g
  assume "no_match zeros ''cgpa'' text \<and> matches_at zeros ''gpa'' text i g
         \<and> no_match_before zeros ''gpa'' text i"
  then have "re_search zeros ''cgpa'' text = None" "re_search zeros ''gpa'' text = Some g"
    by (blast intro: re_search_leftmost re_search_no_match)+
  then show "extract_cgpa zeros text =
         Some (if float_le (float_of zeros g) 10 then float_of zeros g
               else float_div10 (float_of zeros g))"
    by (simp add: extract_cgpa_def)
next
  assume "no_match zeros ''cgpa'' text \<and> no_match zeros ''gpa'' text"
  then have "re_search zeros ''cgpa'' text = None" "re_search zeros ''gpa'' text = None"
    by (blast intro: re_search_no_match)+
  then show "extract_cgpa zeros text = None" by (simp add: extract_cgpa_def)
next
  show "no_match zeros ''cgpa'' text
        \<or> (\<exists>i g. matches_at zeros ''cgpa'' text i g \<and> no_match_before zeros ''cgpa'' text i)"
    by (rule re_search_cases)
  show "no_match zeros ''gpa'' text
        \<or> (\<exists>i g. matches_at zeros ''gpa'' text i g \<and> no_match_before zeros ''gpa'' text i)"
    by (rule re_search_cases)
  show "extract_cgpa unicode_zeros (str ''CGPA: 92'') =
        Some (Finite (2589569785738035 / 281474976710656))"
    by code_simp
  show "float_of unicode_zeros (str ''9.2'') = Finite (2589569785738035 / 281474976710656)"
    by code_simp
  show "extract_cgpa unicode_zeros (str ''CGPA: 7.5'') = Some (Finite (15 / 2))"
    by code_simp
  show "extract_cgpa unicode_zeros (str ''CGPA: 10.0000000000000001'') = Some (Finite 10)"
    by code_simp
qed

theorem extract_cgpa_patterns_in_order_witness:
  "extract_cgpa unicode_zeros (str ''Cgpa: 85'') = Some (Finite (17 / 2))
   \<and> extract_cgpa unicode_zeros (str ''my gpa 7.5'') = Some (Finite (15 / 2))
   \<and> extract_cgpa unicode_zeros (str ''no grade here'') = None"
proof -
  have h1: "matches_at unicode_zeros ''cgpa'' (str ''Cgpa: 85'') 0 (str ''85'')
      \<and> no_match_before unicode_zeros ''cgpa'' (str ''Cgpa: 85'') 0"
    by code_simp
  have h2: "no_match unicode_zeros ''cgpa'' (str ''my gpa 7.5'')
      \<and> matches_at unicode_zeros ''gpa'' (str ''my gpa 7.5'') 3 (str ''7.5'')
      \<and> no_match_before unicode_zeros ''gpa'' (str ''my gpa 7.5'') 3"
    by code_simp
  have h3: "no_match unicode_zeros ''cgpa'' (str ''no grade here'')
      \<and> no_match unicode_zeros ''gpa'' (str ''no grade here'')"
    by code_simp
  have f1: "float_of unicode_zeros (str ''85'') = Finite 85"
    and f2: "float_of unicode_zeros (str ''7.5'') = Finite (15 / 2)"
    and d1: "float_div10 (Finite 85) = Finite (17 / 2)"
    by code_simp+
  from extract_cgpa_patterns_in_order [of unicode_zeros "str ''Cgpa: 85''", THEN conjunct1,
      rule_format, OF h1]
  have c1: "extract_cgpa unicode_zeros (str ''Cgpa: 85'') = Some (Finite (17 / 2))"
    by (simp add: f1 d1 del: float_div10.simps)
  from extract_cgpa_patterns_in_order [of unicode_zeros "str ''my gpa 7.5''", THEN conjunct2,
      THEN conjunct1, rule_format, OF h2]
  have c2: "extract_cgpa unicode_zeros (str ''my gpa 7.5'') = Some (Finite (15 / 2))"
    by (simp add: f2)
  from extract_cgpa_patterns_in_order [of unicode_zeros "str ''no grade here''",
      THEN conjunct2, THEN conjunct2, THEN conjunct1, rule_format, OF h3]
  have c3: "extract_cgpa unicode_zeros (str ''no grade here'') = None" .
  from c1 c2 c3 show ?thesis by simp
qed

text \<open>
  Claim C7 as stated takes the first match of either keyword in the text. On the text
  "GPA 8 CGPA 9" that match is "GPA 8", with the number 8; the code returns 9.
\<close>

theorem extract_cgpa_first_match_counterexample:
  "extract_cgpa unicode_zeros (str ''GPA 8 CGPA 9'') = Some (Finite 9)
   \<and> spec_extract_cgpa unicode_zeros (str ''GPA 8 CGPA 9'') = Some (Finite 8)"
  by code_simp

text \<open>
  Claim C8. For a result whose category is "Skill Improvement" and whose features have
  exactly 2 skills, no projects and the CGPA 6.5, the recommendations are exactly the
  core-language, build-projects, online-courses, hackathon and academic-performance
  suggestions, in this order.
\<close>

theorem skill_improvement_recommendations:
  assumes "category r = ''Skill Improvement''"
    and "length (skills (features r)) = 2"
    and "\<not> has_projects (features r)"
    and "cgpa (features r) = Some (Finite (13 / 2))"
  shows "generate_recommendations r =
     [''Learn core programming: Python, Java, or JavaScript'',
      ''Build 3-4 substantial projects'',
      ''Take online courses (Coursera, Udemy)'',
      ''Participate in hackathons'',
      ''Focus on improving academic performance'']"
  using assms by (simp add: generate_recommendations_def)

theorem skill_improvement_recommendations_witness:
  "generate_recommendations
     \<lparr>category = ''Skill Improvement'', confidence = 3 / 5, probabilities = [],
      features = \<lparr>cgpa = Some (Finite (13 / 2)), skills = [''Python'', ''C''], has_internship = True,
         has_projects = False, has_research = False, has_certifications = False\<rparr>,
      ml_prediction = ''Private Job'', rule_prediction = ''Skill Improvement'',
      ml_probabilities = [], rule_probabilities = []\<rparr> =
     [''Learn core programming: Python, Java, or JavaScript'',
      ''Build 3-4 substantial projects'',
      ''Take online courses (Coursera, Udemy)'',
      ''Participate in hackathons'',
      ''Focus on improving academic performance'']"
  by (rule skill_improvement_recommendations) simp_all

end
